theory Spec2Isabelle
  imports Complex_Main
begin

section \<open>T5-VAE: a shallow embedding of \<open>src/t5_vae.py\<close>\<close>

text \<open>
  Conventions of the embedding.
  \<^item> Python integers are \<open>int\<close>; lengths and list positions are \<open>nat\<close>.
  \<^item> Python floats and tensor entries are idealised as \<open>real\<close>: rounding, overflow
    and NaN are outside the model.
  \<^item> Every \<^verbatim>\<open>raise\<close> and failing \<^verbatim>\<open>assert\<close> is a value \<open>Inl e\<close> of
    \<open>py_error + 'a\<close>.
\<close>

datatype py_error =
  AssertionError | IndexError | ValueError | KeyError | ZeroDivisionError | RuntimeError

subsection \<open>Training arguments (\<open>MyTrainingArguments\<close>, lines 616-632)\<close>

text \<open>
  Only the fields read by the functions embedded here. \<open>reg_constant_weight\<close> is
  \<^verbatim>\<open>Optional[float]\<close> with default \<^verbatim>\<open>None\<close>; \<open>num_train_epochs\<close> is the value of
  \<^verbatim>\<open>int(num_train_epochs)\<close>.
\<close>

record training_args =
  reg_schedule_k :: real
  reg_schedule_b :: real
  reg_constant_weight :: "real option"
  gradient_accumulation_steps :: int
  max_steps :: int
  num_train_epochs :: int

subsection \<open>Regulariser weight schedule (lines 380-385)\<close>




subsection \<open>Python string primitives\<close>

text \<open>
  A Python \<^verbatim>\<open>str\<close> is modelled as a \<open>string\<close> whose characters are the code points
  below 256. \<open>py_split sep s\<close> is \<^verbatim>\<open>s.split(sep)\<close> for a one-character separator: it
  always returns at least one piece, and empty pieces are kept.
\<close>

fun py_split :: "char \<Rightarrow> string \<Rightarrow> string list" where
  "py_split sep [] = [[]]"
| "py_split sep (c # cs) =
     (if c = sep then [] # py_split sep cs
      else (case py_split sep cs of
              p # ps \<Rightarrow> (c # p) # ps
            | [] \<Rightarrow> [[c]]))"

text \<open>
  The characters \<^verbatim>\<open>str.strip()\<close> and \<^verbatim>\<open>int()\<close> treat as white space: tab, line feed,
  vertical tab, form feed, carriage return, the separators 0x1C-0x1F, space, and in the
  Latin-1 range NEL (0x85) and the no-break space (0xA0).
\<close>

definition py_isspace :: "char \<Rightarrow> bool" where
  "py_isspace c \<longleftrightarrow>
     c \<in> set [CHR 0x09, CHR 0x0A, CHR 0x0B, CHR 0x0C, CHR 0x0D, CHR 0x1C, CHR 0x1D,
               CHR 0x1E, CHR 0x1F, CHR 0x20, CHR 0x85, CHR 0xA0]"

definition py_strip :: "string \<Rightarrow> string" where
  "py_strip s = rev (dropWhile py_isspace (rev (dropWhile py_isspace s)))"

definition digit_val :: "char \<Rightarrow> int option" where
  "digit_val c = map_of (zip ''0123456789'' [0, 1, 2, 3, 4, 5, 6, 7, 8, 9]) c"

text \<open>
  The digits of \<^verbatim>\<open>int(s)\<close> in base 10: decimal digits, with single underscores allowed
  between digits (Python 3.6 and later). The flag says whether the previous character
  was a digit.
\<close>

fun parse_digits :: "bool \<Rightarrow> int \<Rightarrow> string \<Rightarrow> int option" where
  "parse_digits prev acc [] = (if prev then Some acc else None)"
| "parse_digits prev acc (c # cs) =
     (case digit_val c of
        Some d \<Rightarrow> parse_digits True (10 * acc + d) cs
      | None \<Rightarrow> if c = CHR ''_'' \<and> prev then parse_digits False acc cs else None)"

text \<open>
  \<^verbatim>\<open>int(s)\<close> on a string: surrounding white space is dropped, one sign is allowed;
  \<open>None\<close> stands for \<^verbatim>\<open>ValueError\<close>. (The digit-count limit of Python 3.11 is not
  modelled; the repository predates it.)
\<close>

definition py_int :: "string \<Rightarrow> int option" where
  "py_int s =
     (case py_strip s of
        [] \<Rightarrow> None
      | c # cs \<Rightarrow>
          if c = CHR ''-'' then map_option uminus (parse_digits False 0 cs)
          else if c = CHR ''+'' then parse_digits False 0 cs
          else parse_digits False 0 (c # cs))"

text \<open>\<^verbatim>\<open>str(n)\<close> for an integer, as \<^verbatim>\<open>"{}".format(n)\<close> prints it.\<close>

function nat_digits :: "nat \<Rightarrow> string" where
  "nat_digits n =
     (if n < 10 then [''0123456789'' ! n]
      else nat_digits (n div 10) @ [''0123456789'' ! (n mod 10)])"
  by pat_completeness auto
termination
  by (relation "measure id") auto

definition py_str :: "int \<Rightarrow> string" where
  "py_str n = (if n < 0 then CHR ''-'' # nat_digits (nat (- n)) else nat_digits (nat n))"

text \<open>
  \<^verbatim>\<open>min(xs, key=key)\<close>: \<^verbatim>\<open>ValueError\<close> on an empty iterable, otherwise the first
  element, in iteration order, whose key is minimal.
\<close>

fun py_min_key :: "('a \<Rightarrow> int) \<Rightarrow> 'a list \<Rightarrow> py_error + 'a" where
  "py_min_key key [] = Inl ValueError"
| "py_min_key key (x # xs) =
     Inr (fold (\<lambda>y best. if key y < key best then y else best) xs x)"

text \<open>A list comprehension over a function that may raise: the first error wins.\<close>

fun map_result :: "('a \<Rightarrow> py_error + 'b) \<Rightarrow> 'a list \<Rightarrow> py_error + 'b list" where
  "map_result f [] = Inr []"
| "map_result f (x # xs) =
     (case f x of
        Inl e \<Rightarrow> Inl e
      | Inr y \<Rightarrow> (case map_result f xs of Inl e \<Rightarrow> Inl e | Inr ys \<Rightarrow> Inr (y # ys)))"

text \<open>
  A Python \<^verbatim>\<open>set\<close> is iterated in an order fixed by hashing, not by the program. The
  order is a parameter of the model: a function from the sequence of insertions to the
  sequence of iteration, which enumerates the same elements once each.
\<close>

definition set_iteration :: "('a list \<Rightarrow> 'a list) \<Rightarrow> bool" where
  "set_iteration iter \<longleftrightarrow> (\<forall>xs. distinct (iter xs) \<and> set (iter xs) = set xs)"

subsection \<open>\<open>NesT5Tokenizer\<close> (lines 61-92)\<close>

record tokenizer =
  index2vocab :: "string list"
  pad_token_id :: nat
  eos_token_id :: nat
  vocab2index :: "string \<rightharpoonup> nat"
  wait_amts :: "int list"

text \<open>
  Lines 64-66: the file's text split at line feeds, empty strings filtered out, each
  remaining line stripped (in this order).
\<close>

definition read_tokens :: "string \<Rightarrow> string list" where
  "read_tokens contents =
     map py_strip (filter (\<lambda>t. t \<noteq> []) (py_split CHR 0x0A contents))"

text \<open>
  Line 73: \<^verbatim>\<open>{word: i for i, word in enumerate(self.index2vocab)}\<close>; a later
  occurrence of a word overwrites an earlier one.
\<close>

definition enumerate_dict :: "string list \<Rightarrow> (string \<rightharpoonup> nat)" where
  "enumerate_dict ws = fold (\<lambda>(i, w) m. m(w \<mapsto> i)) (enumerate 0 ws) Map.empty"

text \<open>
  \<^verbatim>\<open>int(word.split("_")[1])\<close>, the expression of lines 77 and 84: \<^verbatim>\<open>IndexError\<close>
  without an underscore, \<^verbatim>\<open>ValueError\<close> when the second field is not an integer.
\<close>

definition wait_amt_of :: "string \<Rightarrow> py_error + int" where
  "wait_amt_of word =
     (let parts = py_split CHR ''_'' word in
      if length parts < 2 then Inl IndexError
      else (case py_int (parts ! 1) of None \<Rightarrow> Inl ValueError | Some n \<Rightarrow> Inr n))"

text \<open>Lines 74-77: the amounts of the words that start with \<^verbatim>\<open>WT\<close>, in insertion order.\<close>

fun collect_wait_amts :: "string list \<Rightarrow> py_error + int list" where
  "collect_wait_amts [] = Inr []"
| "collect_wait_amts (word # ws) =
     (if take 2 word = ''WT'' then
        (case wait_amt_of word of
           Inl e \<Rightarrow> Inl e
         | Inr n \<Rightarrow> (case collect_wait_amts ws of Inl e \<Rightarrow> Inl e | Inr ns \<Rightarrow> Inr (n # ns)))
      else collect_wait_amts ws)"

text \<open>
  \<^verbatim>\<open>
  def __init__(self, vocab_file):
      with open(vocab_file, "r") as f:
          tokens = f.read().split("\n")
      tokens = list(filter(None, tokens))
      tokens = [txt.strip() for txt in tokens]
      tokens = list(set(tokens))
      assert len(tokens) > 10
      self.index2vocab = ["<pad>", "</s>"] + tokens
      self.pad_token_id = 0
      self.eos_token_id = 1
      self.vocab2index = {word: i for i, word in enumerate(self.index2vocab)}
      self.wait_amts = set()
      for word in self.index2vocab:
          if word[:2] == "WT":
              self.wait_amts.add(int(word.split("_")[1]))
  \<close>
  The argument \<open>contents\<close> is the text of the vocabulary file. \<open>str_iter\<close> and
  \<open>int_iter\<close> are the iteration orders of \<^verbatim>\<open>set(tokens)\<close> and of \<^verbatim>\<open>self.wait_amts\<close>;
  the record keeps \<open>wait_amts\<close> as the list in iteration order.
\<close>

definition NesT5Tokenizer_init ::
    "(string list \<Rightarrow> string list) \<Rightarrow> (int list \<Rightarrow> int list) \<Rightarrow> string
       \<Rightarrow> py_error + tokenizer" where
  "NesT5Tokenizer_init str_iter int_iter contents =
     (let tokens = str_iter (read_tokens contents) in
      if \<not> 10 < length tokens then Inl AssertionError
      else
        let i2v = [''<pad>'', ''</s>''] @ tokens in
        (case collect_wait_amts i2v of
           Inl e \<Rightarrow> Inl e
         | Inr amts \<Rightarrow>
             Inr \<lparr> index2vocab = i2v, pad_token_id = 0, eos_token_id = 1,
                   vocab2index = enumerate_dict i2v, wait_amts = int_iter amts \<rparr>))"

text \<open>
  \<^verbatim>\<open>
  def get_index(self, word):
      if word in self.vocab2index:
          return self.vocab2index[word]
      else:
          assert word[:2] == "WT"
          wait_amt = int(word.split("_")[1])
          closest = min(self.wait_amts, key=lambda x: abs(x - wait_amt))
          return self.vocab2index["WT_{}".format(closest)]
  \<close>
\<close>

definition get_index :: "tokenizer \<Rightarrow> string \<Rightarrow> py_error + nat" where
  "get_index tok word =
     (case vocab2index tok word of
        Some i \<Rightarrow> Inr i
      | None \<Rightarrow>
          if take 2 word \<noteq> ''WT'' then Inl AssertionError
          else
            (case wait_amt_of word of
               Inl e \<Rightarrow> Inl e
             | Inr wait_amt \<Rightarrow>
                 (case py_min_key (\<lambda>x. \<bar>x - wait_amt\<bar>) (wait_amts tok) of
                    Inl e \<Rightarrow> Inl e
                  | Inr closest \<Rightarrow>
                      (case vocab2index tok (''WT_'' @ py_str closest) of
                         None \<Rightarrow> Inl KeyError
                       | Some i \<Rightarrow> Inr i))))"

text \<open>\<^verbatim>\<open>return [self.get_index(word) for word in txt.split(" ")]\<close>\<close>

definition tokenize :: "tokenizer \<Rightarrow> string \<Rightarrow> py_error + nat list" where
  "tokenize tok txt = map_result (get_index tok) (py_split CHR '' '' txt)"

subsection \<open>Tensors\<close>

text \<open>
  A tensor is its shape and its entries in row-major order; entries are reals. The
  number of elements is read from the shape, as \<^verbatim>\<open>torch\<close> does.
\<close>

record tensor =
  shape :: "nat list"
  data :: "real list"

definition numel :: "tensor \<Rightarrow> nat" where
  "numel t = prod_list (shape t)"

text \<open>
  \<^verbatim>\<open>t.view(*dims)\<close> with at most one dimension given as \<^verbatim>\<open>-1\<close>. Without \<^verbatim>\<open>-1\<close> the
  sizes must multiply to the number of elements. With \<^verbatim>\<open>-1\<close> the product of the other
  sizes must be positive and divide the number of elements; a product of 0 is refused
  (the inferred size would be ambiguous or the shape invalid).
\<close>

definition view :: "tensor \<Rightarrow> int list \<Rightarrow> py_error + tensor" where
  "view t dims =
     (let known = filter (\<lambda>d. d \<noteq> - 1) dims;
          newsize = nat (prod_list known)
      in if (\<exists>d\<in>set known. d < 0) \<or> 1 < length dims - length known then Inl RuntimeError
         else if length known = length dims then
           (if numel t = newsize then Inr (t\<lparr>shape := map nat dims\<rparr>) else Inl RuntimeError)
         else if 0 < newsize \<and> numel t mod newsize = 0 then
           Inr (t\<lparr>shape := map (\<lambda>d. if d = - 1 then numel t div newsize else nat d) dims\<rparr>)
         else Inl RuntimeError)"

text \<open>
  \<^verbatim>\<open>nn.Linear(in_features, out_features)\<close>: the weight has one row per output feature.
  The layer is applied to the last dimension; an input whose last dimension is not
  \<open>in_features\<close> (or that has no dimension) raises \<^verbatim>\<open>RuntimeError\<close>.
\<close>

record linear =
  in_features :: nat
  out_features :: nat
  weight :: "real list list"
  bias :: "real list"

definition affine :: "linear \<Rightarrow> real list \<Rightarrow> real list" where
  "affine l x =
     map (\<lambda>j. sum_list (map (\<lambda>(w, a). w * a) (zip (weight l ! j) x)) + bias l ! j)
       [0..<out_features l]"

definition Linear_forward :: "linear \<Rightarrow> tensor \<Rightarrow> py_error + tensor" where
  "Linear_forward l t =
     (if shape t = [] \<or> last (shape t) \<noteq> in_features l then Inl RuntimeError
      else Inr \<lparr> shape = butlast (shape t) @ [out_features l],
                 data = concat (map (\<lambda>r. affine l (take (in_features l) (drop (r * in_features l) (data t))))
                                 [0..<prod_list (butlast (shape t))]) \<rparr>)"

text \<open>\<^verbatim>\<open>nn.Tanh()\<close>, elementwise, over the reals.\<close>

definition tanh_tensor :: "tensor \<Rightarrow> tensor" where
  "tanh_tensor t = t\<lparr>data := map tanh (data t)\<rparr>"

subsection \<open>\<open>LatentEncoderLargeTanh_1kLatent\<close> (lines 95-108)\<close>

text \<open>
  \<^verbatim>\<open>
  def __init__(self, dim_m, set_input_size, latent_size, training_args):
      assert dim_m > 100
      self.shrink_tokens = nn.Linear(dim_m, 100)
      self.shrink_sequence = nn.Linear(100 * set_input_size, latent_size)
      self.tanh = nn.Tanh()
  \<close>
  The weights \<^verbatim>\<open>nn.Linear\<close> draws at construction, and training later replaces, are
  arguments of the model: any setting of them.
\<close>

record latent_encoder =
  shrink_tokens :: linear
  shrink_sequence :: linear

definition LatentEncoderLargeTanh_1kLatent_init ::
    "nat \<Rightarrow> nat \<Rightarrow> nat \<Rightarrow> real list list \<Rightarrow> real list \<Rightarrow> real list list \<Rightarrow> real list
       \<Rightarrow> py_error + latent_encoder" where
  "LatentEncoderLargeTanh_1kLatent_init dim_m set_input_size latent_size w1 b1 w2 b2 =
     (if \<not> 100 < dim_m then Inl AssertionError
      else Inr \<lparr> shrink_tokens =
                   \<lparr> in_features = dim_m, out_features = 100, weight = w1, bias = b1 \<rparr>,
                 shrink_sequence =
                   \<lparr> in_features = 100 * set_input_size, out_features = latent_size,
                     weight = w2, bias = b2 \<rparr> \<rparr>)"

text \<open>
  \<^verbatim>\<open>
  def forward(self, encoding):
      batch_size = encoding.size(0)
      encoding = self.shrink_tokens(encoding)
      encoding = self.shrink_sequence(encoding.view(batch_size, -1))
      return self.tanh(encoding)
  \<close>
\<close>

definition LatentEncoderLargeTanh_1kLatent_forward ::
    "latent_encoder \<Rightarrow> tensor \<Rightarrow> py_error + tensor" where
  "LatentEncoderLargeTanh_1kLatent_forward enc encoding =
     (case shape encoding of
        [] \<Rightarrow> Inl IndexError
      | batch_size # _ \<Rightarrow>
          (case Linear_forward (shrink_tokens enc) encoding of
             Inl e \<Rightarrow> Inl e
           | Inr e1 \<Rightarrow>
               (case view e1 [int batch_size, - 1] of
                  Inl e \<Rightarrow> Inl e
                | Inr e2 \<Rightarrow>
                    (case Linear_forward (shrink_sequence enc) e2 of
                       Inl e \<Rightarrow> Inl e
                     | Inr e3 \<Rightarrow> Inr (tanh_tensor e3)))))"

subsection \<open>\<open>LatentDecoderLargeT5NormFF\<close> (lines 111-128)\<close>

text \<open>
  \<^verbatim>\<open>
  def __init__(self, dim_m, set_input_size, latent_size, training_args, config):
      self.decode_latent = nn.Linear(latent_size, 10 * set_input_size)
      self.grow_sequence = nn.Linear(10 * set_input_size, 100 * set_input_size)
      self.grow_tokens = nn.Linear(100, dim_m)
      ...
      self.norm = T5LayerFF(config)     # built with config.dropout_rate = 0
  \<close>
  \<^verbatim>\<open>T5LayerFF\<close> belongs to the transformers library, not to this repository: the layer
  is the parameter \<open>t5_layer_ff\<close>, a function on tensors (with dropout disabled it
  draws no randomness). The field is called \<open>norm_ff\<close>.
\<close>

record latent_decoder =
  decode_latent :: linear
  grow_sequence :: linear
  grow_tokens :: linear
  norm_ff :: "tensor \<Rightarrow> tensor"

definition LatentDecoderLargeT5NormFF_init ::
    "nat \<Rightarrow> nat \<Rightarrow> nat \<Rightarrow> (tensor \<Rightarrow> tensor) \<Rightarrow> real list list \<Rightarrow> real list
       \<Rightarrow> real list list \<Rightarrow> real list \<Rightarrow> real list list \<Rightarrow> real list \<Rightarrow> latent_decoder" where
  "LatentDecoderLargeT5NormFF_init dim_m set_input_size latent_size t5_layer_ff w1 b1 w2 b2 w3 b3 =
     \<lparr> decode_latent =
         \<lparr> in_features = latent_size, out_features = 10 * set_input_size,
           weight = w1, bias = b1 \<rparr>,
       grow_sequence =
         \<lparr> in_features = 10 * set_input_size, out_features = 100 * set_input_size,
           weight = w2, bias = b2 \<rparr>,
       grow_tokens = \<lparr> in_features = 100, out_features = dim_m, weight = w3, bias = b3 \<rparr>,
       norm_ff = t5_layer_ff \<rparr>"

text \<open>
  \<^verbatim>\<open>
  def forward(self, latent):
      batch_size = latent.size(0)
      latent = self.decode_latent(latent)
      latent = self.grow_sequence(latent)
      return self.norm(self.grow_tokens(latent.view(batch_size, -1, 100)))
  \<close>
\<close>

definition LatentDecoderLargeT5NormFF_forward ::
    "latent_decoder \<Rightarrow> tensor \<Rightarrow> py_error + tensor" where
  "LatentDecoderLargeT5NormFF_forward dec latent =
     (case shape latent of
        [] \<Rightarrow> Inl IndexError
      | batch_size # _ \<Rightarrow>
          (case Linear_forward (decode_latent dec) latent of
             Inl e \<Rightarrow> Inl e
           | Inr l1 \<Rightarrow>
               (case Linear_forward (grow_sequence dec) l1 of
                  Inl e \<Rightarrow> Inl e
                | Inr l2 \<Rightarrow>
                    (case view l2 [int batch_size, - 1, 100] of
                       Inl e \<Rightarrow> Inl e
                     | Inr l3 \<Rightarrow>
                         (case Linear_forward (grow_tokens dec) l3 of
                            Inl e \<Rightarrow> Inl e
                          | Inr l4 \<Rightarrow> Inr (norm_ff dec l4))))))"

subsection \<open>\<open>FullSeqAE\<close> (lines 131-180)\<close>

text \<open>Row \<open>i\<close> of a two-dimensional tensor with rows of length \<open>dim1\<close>.\<close>

definition row :: "tensor \<Rightarrow> nat \<Rightarrow> nat \<Rightarrow> real list" where
  "row t dim1 i = take dim1 (drop (i * dim1) (data t))"

text \<open>
  \<^verbatim>\<open>
  def _compute_kernel(x, y):
      x_size = x.shape[0]
      y_size = y.shape[0]
      dim = x.shape[1]
      tiled_x = x.view(x_size, 1, dim).repeat(1, y_size, 1)
      tiled_y = y.view(1, y_size, dim).repeat(x_size, 1, 1)
      return torch.exp(-torch.mean((tiled_x - tiled_y) ** 2, dim=2) / dim * 1.0)
  \<close>
  \<open>tiled_x[i][j]\<close> is row \<open>i\<close> of \<open>x\<close> and \<open>tiled_y[i][j]\<close> is row \<open>j\<close> of \<open>y\<close>; the
  mean over the last dimension divides by \<open>dim\<close>. (\<open>dim\<close> is written \<open>dim1\<close>.) With an
  empty batch or \<open>dim = 0\<close> torch yields NaN, which the reals do not have: the
  properties below are stated for sizes of at least 1.
\<close>

definition compute_kernel :: "tensor \<Rightarrow> tensor \<Rightarrow> py_error + tensor" where
  "compute_kernel x y =
     (case shape x of
        x_size # dim1 # _ \<Rightarrow>
          (case shape y of
             y_size # _ \<Rightarrow>
               if numel x \<noteq> x_size * 1 * dim1 \<or> numel y \<noteq> 1 * y_size * dim1
               then Inl RuntimeError
               else Inr \<lparr> shape = [x_size, y_size],
                          data = concat (map (\<lambda>i. map (\<lambda>j.
                                   exp (- (sum_list (map (\<lambda>(a, b). (a - b) ^ 2)
                                             (zip (row x dim1 i) (row y dim1 j))) / real dim1)
                                        / real dim1 * 1))
                                   [0..<y_size]) [0..<x_size]) \<rparr>
           | [] \<Rightarrow> Inl IndexError)
      | _ \<Rightarrow> Inl IndexError)"

text \<open>\<^verbatim>\<open>torch.mean(t)\<close> over all entries.\<close>

definition mean_all :: "tensor \<Rightarrow> real" where
  "mean_all t = sum_list (data t) / real (numel t)"

text \<open>
  \<^verbatim>\<open>
  def _compute_mmd(self, x, y):
      x_kernel = self._compute_kernel(x, x)
      y_kernel = self._compute_kernel(y, y)
      xy_kernel = self._compute_kernel(x, y)
      return torch.mean(x_kernel) + torch.mean(y_kernel) - 2 * torch.mean(xy_kernel)
  \<close>
\<close>

definition compute_mmd :: "tensor \<Rightarrow> tensor \<Rightarrow> py_error + real" where
  "compute_mmd x y =
     (case compute_kernel x x of
        Inl e \<Rightarrow> Inl e
      | Inr x_kernel \<Rightarrow>
          (case compute_kernel y y of
             Inl e \<Rightarrow> Inl e
           | Inr y_kernel \<Rightarrow>
               (case compute_kernel x y of
                  Inl e \<Rightarrow> Inl e
                | Inr xy_kernel \<Rightarrow>
                    Inr (mean_all x_kernel + mean_all y_kernel - 2 * mean_all xy_kernel))))"

text \<open>
  The autoencoder holds any two modules; they are functions on tensors that may raise.
  The three ways \<open>forward\<close> returns are the constructors of \<open>forward_result\<close>.
\<close>

record full_seq_ae =
  encoder :: "tensor \<Rightarrow> py_error + tensor"
  decoder :: "tensor \<Rightarrow> py_error + tensor"

datatype forward_result =
  Latent tensor
| Encoding tensor
| Losses real real tensor

text \<open>
  \<^verbatim>\<open>
  def _model_forward(self, encoding):
      latent = self.encoder(encoding)
      return self.decoder(latent), latent
  \<close>
\<close>

definition model_forward :: "full_seq_ae \<Rightarrow> tensor \<Rightarrow> py_error + (tensor \<times> tensor)" where
  "model_forward ae encoding =
     (case encoder ae encoding of
        Inl e \<Rightarrow> Inl e
      | Inr latent \<Rightarrow>
          (case decoder ae latent of
             Inl e \<Rightarrow> Inl e
           | Inr recon \<Rightarrow> Inr (recon, latent)))"

text \<open>
  \<^verbatim>\<open>torch.nn.MSELoss(reduction="mean")\<close> on two tensors of the same shape. Shapes that
  differ are an error here; torch would broadcast them where it can, which the model
  does not follow.
\<close>

definition mse_loss :: "tensor \<Rightarrow> tensor \<Rightarrow> py_error + real" where
  "mse_loss a b =
     (if shape a \<noteq> shape b then Inl RuntimeError
      else Inr (sum_list (map (\<lambda>(u, v). (u - v) ^ 2) (zip (data a) (data b))) / real (numel a)))"

text \<open>
  \<^verbatim>\<open>
  def _regularliser_loss(self, input_encoding, latent):
      loss = torch.tensor(0, dtype=torch.float).to(self.args.device)
      true_samples = torch.randn(latent.size()).to(latent.device)
      loss += self._compute_mmd(true_samples, latent)
      return loss
  \<close>
  \<^verbatim>\<open>torch.randn\<close> reads and advances the state of the random generator: the model
  passes the generator \<open>randn\<close> and its state \<open>g\<close>, and returns the new state.
\<close>

definition regulariser_loss ::
    "('g \<Rightarrow> nat list \<Rightarrow> tensor \<times> 'g) \<Rightarrow> 'g \<Rightarrow> tensor \<Rightarrow> tensor \<Rightarrow> (py_error + real) \<times> 'g" where
  "regulariser_loss randn g input_encoding latent =
     (let (true_samples, g') = randn g (shape latent) in
      (case compute_mmd true_samples latent of
         Inl e \<Rightarrow> (Inl e, g')
       | Inr m \<Rightarrow> (Inr (0 + m), g')))"

text \<open>
  \<^verbatim>\<open>
  def forward(self, input_encoding, just_get_latent=False, just_get_encoding=False):
      recon_encoding, latent = self._model_forward(input_encoding)
      if just_get_latent:
          return latent
      if just_get_encoding:
          return recon_encoding
      recon_loss = torch.nn.MSELoss(reduction="mean")(input_encoding, recon_encoding)
      reg_loss = self._regularliser_loss(input_encoding, latent)
      return recon_loss, reg_loss, recon_encoding
  \<close>
\<close>

definition FullSeqAE_forward ::
    "full_seq_ae \<Rightarrow> ('g \<Rightarrow> nat list \<Rightarrow> tensor \<times> 'g) \<Rightarrow> 'g \<Rightarrow> tensor \<Rightarrow> bool \<Rightarrow> bool
       \<Rightarrow> (py_error + forward_result) \<times> 'g" where
  "FullSeqAE_forward ae randn g input_encoding just_get_latent just_get_encoding =
     (case model_forward ae input_encoding of
        Inl e \<Rightarrow> (Inl e, g)
      | Inr (recon_encoding, latent) \<Rightarrow>
          if just_get_latent then (Inr (Latent latent), g)
          else if just_get_encoding then (Inr (Encoding recon_encoding), g)
          else
            (case mse_loss input_encoding recon_encoding of
               Inl e \<Rightarrow> (Inl e, g)
             | Inr recon_loss \<Rightarrow>
                 (case regulariser_loss randn g input_encoding latent of
                    (Inl e, g') \<Rightarrow> (Inl e, g')
                  | (Inr reg_loss, g') \<Rightarrow>
                      (Inr (Losses recon_loss reg_loss recon_encoding), g'))))"

subsection \<open>Example modules and tensors\<close>

text \<open>
  An autoencoder of two identity modules, a generator whose samples all equal its state,
  and the tensor of shape \<open>(1, 1)\<close> with one entry.
\<close>

definition identity_ae :: full_seq_ae where
  "identity_ae = \<lparr> encoder = (\<lambda>t. Inr t), decoder = (\<lambda>t. Inr t) \<rparr>"

definition constant_randn :: "real \<Rightarrow> nat list \<Rightarrow> tensor \<times> real" where
  "constant_randn g sh = (\<lparr> shape = sh, data = replicate (prod_list sh) g \<rparr>, g + 1)"

definition unit_tensor :: "real \<Rightarrow> tensor" where
  "unit_tensor v = \<lparr> shape = [1, 1], data = [v] \<rparr>"

text \<open>
  An encoder for hidden dimension 101, sequence length 2 and latent size 4 with all
  weights zero, and an input batch of 3 sequences.
\<close>

definition example_encoder :: latent_encoder where
  "example_encoder =
     \<lparr> shrink_tokens =
         \<lparr> in_features = 101, out_features = 100,
           weight = replicate 100 (replicate 101 0), bias = replicate 100 0 \<rparr>,
       shrink_sequence =
         \<lparr> in_features = 200, out_features = 4,
           weight = replicate 4 (replicate 200 0), bias = replicate 4 0 \<rparr> \<rparr>"

definition example_input :: tensor where
  "example_input = \<lparr> shape = [3, 2, 101], data = replicate 606 0 \<rparr>"

subsection \<open>\<open>T5_VAE_Trainer.train\<close> (lines 460-613)\<close>




text \<open>\<^verbatim>\<open>int(model_path.split("-")[-1].split("/")[0])\<close> (line 521).\<close>

definition checkpoint_step :: "string \<Rightarrow> int option" where
  "checkpoint_step model_path = py_int (hd (py_split CHR ''/'' (last (py_split CHR ''-'' model_path))))"

text \<open>
  Lines 513-533; the result is \<open>(global_step, epochs_trained,
  steps_trained_in_current_epoch)\<close>.
  \<^verbatim>\<open>
  self.global_step = 0
  epochs_trained = 0
  steps_trained_in_current_epoch = 0
  if model_path is not None:
      try:
          self.global_step = int(model_path.split("-")[-1].split("/")[0])
          epochs_trained = self.global_step // (len(train_dataloader) // self.args.gradient_accumulation_steps)
          steps_trained_in_current_epoch = (
              self.global_step * self.args.gradient_accumulation_steps % len(train_dataloader)
          )
      except ValueError:
          self.global_step = 0
  \<close>
  Only \<^verbatim>\<open>ValueError\<close> is caught: a division by zero leaves the function.
\<close>

definition resume :: "training_args \<Rightarrow> int \<Rightarrow> string option \<Rightarrow> py_error + (int \<times> int \<times> int)" where
  "resume args len model_path =
     (case model_path of
        None \<Rightarrow> Inr (0, 0, 0)
      | Some path \<Rightarrow>
          (case checkpoint_step path of
             None \<Rightarrow> Inr (0, 0, 0)
           | Some n \<Rightarrow>
               if gradient_accumulation_steps args = 0
                  \<or> len div gradient_accumulation_steps args = 0 \<or> len = 0
               then Inl ZeroDivisionError
               else Inr (n, n div (len div gradient_accumulation_steps args),
                         n * gradient_accumulation_steps args mod len)))"










subsection \<open>Reading a trace\<close>













subsection \<open>Example vocabularies\<close>

text \<open>
  The shape of a parameterized token in the specification's words: the prefix \<^verbatim>\<open>WT\<close>,
  an underscore, and an integer. It is compared with what \<open>get_index\<close> accepts.
\<close>

definition wellformed_parameterized :: "string \<Rightarrow> bool" where
  "wellformed_parameterized w \<longleftrightarrow> take 3 w = ''WT_'' \<and> py_int (drop 3 w) \<noteq> None"

text \<open>
  A vocabulary file with two wait-amount buckets, a blank line and a repeated line, and
  one that lists the reserved token \<^verbatim>\<open><pad>\<close> itself.
\<close>

definition example_vocab_file :: string where
  "example_vocab_file =
     ''WT_10\<newline>WT_20\<newline>a\<newline>b\<newline>c\<newline>d\<newline>e\<newline>f\<newline>g\<newline>h\<newline>i\<newline>\<newline>a\<newline>''"

definition reserved_vocab_file :: string where
  "reserved_vocab_file =
     ''<pad>\<newline>a\<newline>b\<newline>c\<newline>d\<newline>e\<newline>f\<newline>g\<newline>h\<newline>i\<newline>j''"

text \<open>The tokenizer built from the first file when sets are iterated as \<open>remdups\<close> lists them.\<close>

definition example_tokenizer :: tokenizer where
  "example_tokenizer =
     \<lparr> index2vocab = [''<pad>'', ''</s>'', ''WT_10'', ''WT_20'', ''b'', ''c'', ''d'', ''e'',
                       ''f'', ''g'', ''h'', ''i'', ''a''],
       pad_token_id = 0, eos_token_id = 1,
       vocab2index = enumerate_dict [''<pad>'', ''</s>'', ''WT_10'', ''WT_20'', ''b'', ''c'',
                       ''d'', ''e'', ''f'', ''g'', ''h'', ''i'', ''a''],
       wait_amts = [10, 20] \<rparr>"

section \<open>Properties\<close>

subsection \<open>Regulariser weight schedule\<close>





subsection \<open>Tokenizer\<close>

lemma py_split_nonempty: "py_split sep s \<noteq> []"
  by (induction s) (auto split: list.splits)

lemma fold_enum_dom:
  "dom (fold (\<lambda>(i, w) m. m(w \<mapsto> i)) (enumerate k ws) m) = dom m \<union> set ws"
  by (induction ws arbitrary: k m) auto

lemma fold_enum_Some:
  "fold (\<lambda>(i, w) m. m(w \<mapsto> i)) (enumerate k ws) m w = Some i \<Longrightarrow>
     (w \<notin> set ws \<and> m w = Some i) \<or> (k \<le> i \<and> i < k + length ws \<and> ws ! (i - k) = w)"
proof (induction ws arbitrary: k m)
  case Nil
  then show ?case by simp
next
  case (Cons a ws)
  from Cons.prems
  have "fold (\<lambda>(i, w) m. m(w \<mapsto> i)) (enumerate (Suc k) ws) (m(a \<mapsto> k)) w = Some i"
    by (simp del: fun_upd_apply)
  from Cons.IH [OF this]
  show ?case
  proof
    assume "w \<notin> set ws \<and> (m(a \<mapsto> k)) w = Some i"
    then show ?thesis
      by (cases "w = a") auto
  next
    assume h: "Suc k \<le> i \<and> i < Suc k + length ws \<and> ws ! (i - Suc k) = w"
    then have "(a # ws) ! (i - k) = w"
      by (simp add: nth_Cons' Suc_diff_Suc)
    with h show ?thesis by simp
  qed
qed

lemma fold_enum_distinct:
  "distinct ws \<Longrightarrow> j < length ws \<Longrightarrow>
     fold (\<lambda>(i, w) m. m(w \<mapsto> i)) (enumerate k ws) m (ws ! j) = Some (k + j)"
proof (induction ws arbitrary: k m j)
  case Nil
  then show ?case by simp
next
  case (Cons a ws)
  show ?case
  proof (cases j)
    case 0
    have "a \<notin> set ws" using Cons.prems by simp
    have "fold (\<lambda>(i, w) m. m(w \<mapsto> i)) (enumerate (Suc k) ws) (m(a \<mapsto> k)) a = Some k"
    proof (cases "fold (\<lambda>(i, w) m. m(w \<mapsto> i)) (enumerate (Suc k) ws) (m(a \<mapsto> k)) a")
      case None
      then have "a \<notin> dom (fold (\<lambda>(i, w) m. m(w \<mapsto> i)) (enumerate (Suc k) ws) (m(a \<mapsto> k)))"
        by auto
      then show ?thesis by (simp add: fold_enum_dom)
    next
      case (Some i)
      from fold_enum_Some [OF this] \<open>a \<notin> set ws\<close> show ?thesis
        using Some by auto
    qed
    with 0 show ?thesis by (simp del: fun_upd_apply)
  next
    case (Suc j')
    with Cons.prems have "distinct ws" "j' < length ws" by simp_all
    from Cons.IH [OF this, of "Suc k" "m(a \<mapsto> k)"] Suc show ?thesis by (simp del: fun_upd_apply)
  qed
qed

lemma enumerate_dict_dom: "dom (enumerate_dict ws) = set ws"
  by (simp add: enumerate_dict_def fold_enum_dom)

lemma enumerate_dict_Some:
  "enumerate_dict ws w = Some i \<Longrightarrow> i < length ws \<and> ws ! i = w"
  using fold_enum_Some [of 0 ws Map.empty w i] by (simp add: enumerate_dict_def)

lemma enumerate_dict_distinct:
  "distinct ws \<Longrightarrow> j < length ws \<Longrightarrow> enumerate_dict ws (ws ! j) = Some j"
  using fold_enum_distinct [of ws j 0 Map.empty] by (simp add: enumerate_dict_def)

lemma collect_wait_amts_ok:
  "(\<forall>w\<in>set ws. take 2 w = ''WT'' \<longrightarrow> (\<exists>n. wait_amt_of w = Inr n)) \<Longrightarrow>
     \<exists>ns. collect_wait_amts ws = Inr ns"
  by (induction ws) auto

lemma collect_wait_amts_set:
  "collect_wait_amts ws = Inr ns \<Longrightarrow>
     set ns = {n. \<exists>w\<in>set ws. take 2 w = ''WT'' \<and> wait_amt_of w = Inr n}"
proof (induction ws arbitrary: ns)
  case Nil
  then show ?case by simp
next
  case (Cons w ws)
  then show ?case
    by (auto split: if_splits sum.splits)
qed

lemma fold_min_key:
  "fold (\<lambda>y best. if key y < key best then y else best) xs x \<in> set (x # xs) \<and>
   (\<forall>y\<in>set (x # xs). key (fold (\<lambda>y best. if key y < key best then y else best) xs x) \<le> (key y :: int))"
proof (induction xs arbitrary: x)
  case Nil
  then show ?case by simp
next
  case (Cons a xs)
  show ?case
    using Cons.IH [of a] Cons.IH [of x] by (auto simp: le_less)
qed

lemma py_min_key_spec:
  "xs \<noteq> [] \<Longrightarrow> \<exists>b. py_min_key key xs = Inr b \<and> b \<in> set xs \<and> (\<forall>y\<in>set xs. key b \<le> key y)"
  using fold_min_key [of key "tl xs" "hd xs"] by (cases xs) auto

lemma map_result_all_ok:
  "(\<forall>x\<in>set xs. \<exists>y. f x = Inr y) \<Longrightarrow> \<exists>ys. map_result f xs = Inr ys \<and> length ys = length xs \<and> (\<forall>i<length xs. f (xs ! i) = Inr (ys ! i))"
proof (induction xs)
  case Nil
  then show ?case by simp
next
  case (Cons x xs)
  then obtain y where y: "f x = Inr y" by auto
  from Cons obtain ys where ys: "map_result f xs = Inr ys" "length ys = length xs" "\<forall>i<length xs. f (xs ! i) = Inr (ys ! i)"
    by auto
  show ?case using y ys by (auto simp: nth_Cons')
qed

lemma init_fields:
  assumes "NesT5Tokenizer_init str_iter int_iter contents = Inr tok"
  shows "index2vocab tok = ''<pad>'' # ''</s>'' # str_iter (read_tokens contents)"
    and "vocab2index tok = enumerate_dict (index2vocab tok)"
    and "pad_token_id tok = 0" and "eos_token_id tok = 1"
    and "10 < length (str_iter (read_tokens contents))"
    and "\<exists>amts. collect_wait_amts (index2vocab tok) = Inr amts \<and> wait_amts tok = int_iter amts"
  using assms
  by (auto simp: NesT5Tokenizer_init_def Let_def split: if_splits sum.splits)

lemma init_ok:
  assumes "10 < length (str_iter (read_tokens contents))"
    and "\<forall>w\<in>set (str_iter (read_tokens contents)).
           take 2 w = ''WT'' \<longrightarrow> (\<exists>n. wait_amt_of w = Inr n)"
  shows "\<exists>tok. NesT5Tokenizer_init str_iter int_iter contents = Inr tok"
proof -
  have "\<forall>w\<in>set (''<pad>'' # ''</s>'' # str_iter (read_tokens contents)).
          take 2 w = ''WT'' \<longrightarrow> (\<exists>n. wait_amt_of w = Inr n)"
    using assms(2) by simp
  from collect_wait_amts_ok [OF this] obtain ns
    where "collect_wait_amts (''<pad>'' # ''</s>'' # str_iter (read_tokens contents)) = Inr ns" ..
  with assms(1) show ?thesis
    by (simp add: NesT5Tokenizer_init_def Let_def)
qed

text \<open>The example vocabularies, evaluated.\<close>

lemma set_iteration_remdups: "set_iteration remdups"
  by (simp add: set_iteration_def)

lemma read_example: "read_tokens example_vocab_file =
   [''WT_10'', ''WT_20'', ''a'', ''b'', ''c'', ''d'', ''e'', ''f'', ''g'', ''h'', ''i'', ''a'']"
  by (simp add: read_tokens_def example_vocab_file_def py_strip_def py_isspace_def)

lemma read_reserved: "read_tokens reserved_vocab_file =
   [''<pad>'', ''a'', ''b'', ''c'', ''d'', ''e'', ''f'', ''g'', ''h'', ''i'', ''j'']"
  by (simp add: read_tokens_def reserved_vocab_file_def py_strip_def py_isspace_def)

lemma wait_amt_examples:
  "wait_amt_of ''WT_10'' = Inr 10" "wait_amt_of ''WT_20'' = Inr 20"
  "wait_amt_of ''WT_14'' = Inr 14" "wait_amt_of ''WT_16'' = Inr 16"
  "wait_amt_of ''WTX_14'' = Inr 14"
  by (simp_all add: wait_amt_of_def py_int_def py_strip_def py_isspace_def digit_val_def)

lemma py_str_examples: "py_str 10 = ''10''" "py_str 20 = ''20''"
  by (simp_all add: py_str_def)

lemma example_init:
  "NesT5Tokenizer_init remdups remdups example_vocab_file =
     Inr \<lparr> index2vocab = [''<pad>'', ''</s>'', ''WT_10'', ''WT_20'', ''b'', ''c'', ''d'', ''e'',
                           ''f'', ''g'', ''h'', ''i'', ''a''],
           pad_token_id = 0, eos_token_id = 1,
           vocab2index = enumerate_dict [''<pad>'', ''</s>'', ''WT_10'', ''WT_20'', ''b'', ''c'',
                           ''d'', ''e'', ''f'', ''g'', ''h'', ''i'', ''a''],
           wait_amts = [10, 20] \<rparr>"
  by (simp add: NesT5Tokenizer_init_def read_example wait_amt_examples Let_def)

lemma example_init': "NesT5Tokenizer_init remdups remdups example_vocab_file = Inr example_tokenizer"
  by (simp add: example_init example_tokenizer_def)

text \<open>
  C3, as amended. For a tokenizer built by \<open>__init__\<close>: a vocabulary entry is looked up
  to a position that holds it. The registered buckets are the integers of the second
  underscore-separated field of the entries that start with \<^verbatim>\<open>WT\<close>. A token outside
  the vocabulary whose first two characters are \<^verbatim>\<open>WT\<close> and whose second field parses
  as the integer \<open>n\<close> fails with \<open>ValueError\<close> when no bucket is registered; otherwise
  there is a registered bucket \<open>b\<close> at minimal distance from \<open>n\<close> such that the result
  is the id of the entry \<^verbatim>\<open>WT_<b>\<close> if the vocabulary has it and \<open>KeyError\<close> if
  not. Every other token outside the vocabulary makes the lookup fail.
\<close>

theorem get_index_spec:
  assumes init: "NesT5Tokenizer_init str_iter int_iter contents = Inr tok"
    and iter: "set_iteration int_iter"
  shows "(w \<in> set (index2vocab tok) \<longrightarrow>
            (\<exists>i. get_index tok w = Inr i \<and> i < length (index2vocab tok) \<and>
                 index2vocab tok ! i = w)) \<and>
         set (wait_amts tok)
           = {n. \<exists>v\<in>set (index2vocab tok). take 2 v = ''WT'' \<and> wait_amt_of v = Inr n} \<and>
         (w \<notin> set (index2vocab tok) \<and> take 2 w = ''WT'' \<and> wait_amt_of w = Inr n \<longrightarrow>
            (if wait_amts tok = [] then get_index tok w = Inl ValueError
             else \<exists>b\<in>set (wait_amts tok).
                    (\<forall>b'\<in>set (wait_amts tok). \<bar>b - n\<bar> \<le> \<bar>b' - n\<bar>) \<and>
                    get_index tok w =
                      (case vocab2index tok (''WT_'' @ py_str b) of
                         None \<Rightarrow> Inl KeyError
                       | Some i \<Rightarrow> Inr i))) \<and>
         (w \<notin> set (index2vocab tok) \<and>
            \<not> (take 2 w = ''WT'' \<and> (\<exists>m. wait_amt_of w = Inr m)) \<longrightarrow>
            (\<exists>e. get_index tok w = Inl e))"
proof (intro conjI impI)
  note f = init_fields [OF init]
  have dom: "dom (vocab2index tok) = set (index2vocab tok)"
    by (simp add: f(2) enumerate_dict_dom)
  {
    assume "w \<in> set (index2vocab tok)"
    with dom obtain i where i: "vocab2index tok w = Some i"
      by auto
    then have "enumerate_dict (index2vocab tok) w = Some i"
      using f(2) by simp
    from enumerate_dict_Some [OF this] i
    show "\<exists>i. get_index tok w = Inr i \<and> i < length (index2vocab tok) \<and> index2vocab tok ! i = w"
      by (simp add: get_index_def)
  }
  from f(6) obtain amts
    where amts: "collect_wait_amts (index2vocab tok) = Inr amts" "wait_amts tok = int_iter amts"
    by blast
  from iter have "set (int_iter amts) = set amts"
    by (simp add: set_iteration_def)
  with amts collect_wait_amts_set [OF amts(1)]
  show "set (wait_amts tok)
      = {n. \<exists>v\<in>set (index2vocab tok). take 2 v = ''WT'' \<and> wait_amt_of v = Inr n}"
    by simp
  {
    assume h: "w \<notin> set (index2vocab tok) \<and> take 2 w = ''WT'' \<and> wait_amt_of w = Inr n"
    with dom have none: "vocab2index tok w = None"
      by auto
    show "if wait_amts tok = [] then get_index tok w = Inl ValueError
          else \<exists>b\<in>set (wait_amts tok).
                 (\<forall>b'\<in>set (wait_amts tok). \<bar>b - n\<bar> \<le> \<bar>b' - n\<bar>) \<and>
                 get_index tok w =
                   (case vocab2index tok (''WT_'' @ py_str b) of
                      None \<Rightarrow> Inl KeyError
                    | Some i \<Rightarrow> Inr i)"
    proof (cases "wait_amts tok = []")
      case True
      with h none show ?thesis
        by (simp add: get_index_def)
    next
      case False
      from py_min_key_spec [OF False, of "\<lambda>x. \<bar>x - n\<bar>"] obtain b
        where b: "py_min_key (\<lambda>x. \<bar>x - n\<bar>) (wait_amts tok) = Inr b" "b \<in> set (wait_amts tok)"
          "\<forall>y\<in>set (wait_amts tok). \<bar>b - n\<bar> \<le> \<bar>y - n\<bar>"
        by blast
      have "get_index tok w =
          (case vocab2index tok (''WT_'' @ py_str b) of None \<Rightarrow> Inl KeyError | Some i \<Rightarrow> Inr i)"
        using h none b(1) by (simp add: get_index_def split: option.splits)
      with b(2,3) False show ?thesis
        by auto
    qed
  }
  {
    assume h: "w \<notin> set (index2vocab tok) \<and>
        \<not> (take 2 w = ''WT'' \<and> (\<exists>m. wait_amt_of w = Inr m))"
    with dom have none: "vocab2index tok w = None"
      by auto
    from h show "\<exists>e. get_index tok w = Inl e"
      by (auto simp: get_index_def none split: sum.splits)
  }
qed

theorem get_index_spec_witness:
  "set (wait_amts example_tokenizer) = {10, 20} \<and>
   get_index example_tokenizer ''WT_20'' = Inr 3 \<and>
   get_index example_tokenizer ''WT_14'' = Inr 2 \<and>
   get_index example_tokenizer ''WT_16'' = Inr 3 \<and>
   (\<exists>e. get_index example_tokenizer ''abc'' = Inl e)"
proof -
  note spec = get_index_spec [OF example_init' set_iteration_remdups]
  have vocab: "''WT_20'' \<in> set (index2vocab example_tokenizer)"
    "''WT_14'' \<notin> set (index2vocab example_tokenizer)"
    "''WT_16'' \<notin> set (index2vocab example_tokenizer)"
    "''abc'' \<notin> set (index2vocab example_tokenizer)"
    by (simp_all add: example_tokenizer_def)
  have ids: "vocab2index example_tokenizer ''WT_10'' = Some 2"
    "vocab2index example_tokenizer ''WT_20'' = Some 3"
    by (simp_all add: example_tokenizer_def enumerate_dict_def)
  have amts: "wait_amts example_tokenizer = [10, 20]"
    by (simp add: example_tokenizer_def)
  have "set (wait_amts example_tokenizer) = {10, 20}"
    by (simp add: amts)
  moreover from spec [of "''WT_20''"] vocab(1)
  have "get_index example_tokenizer ''WT_20'' = Inr 3"
    by (auto simp: example_tokenizer_def nth_Cons' split: if_splits)
  moreover from spec [of "''WT_14''" 14] vocab(2)
  have "get_index example_tokenizer ''WT_14'' = Inr 2"
    by (auto simp: amts ids wait_amt_examples py_str_examples)
  moreover from spec [of "''WT_16''" 16] vocab(3)
  have "get_index example_tokenizer ''WT_16'' = Inr 3"
    by (auto simp: amts ids wait_amt_examples py_str_examples)
  moreover from spec [of "''abc''"] vocab(4)
  have "\<exists>e. get_index example_tokenizer ''abc'' = Inl e"
    by simp
  ultimately show ?thesis
    by blast
qed

text \<open>
  The claim as stated fails: \<^verbatim>\<open>WTX_14\<close> is neither a vocabulary entry nor of the
  shape \<^verbatim>\<open>WT_<integer>\<close>, yet the lookup returns the id of \<^verbatim>\<open>WT_10\<close>.
\<close>

theorem get_index_counterexample:
  "\<exists>tok. NesT5Tokenizer_init remdups remdups example_vocab_file = Inr tok \<and>
         ''WTX_14'' \<notin> set (index2vocab tok) \<and>
         \<not> wellformed_parameterized ''WTX_14'' \<and>
         get_index tok ''WTX_14'' = Inr 2 \<and> index2vocab tok ! 2 = ''WT_10''"
  by (simp add: example_init wellformed_parameterized_def get_index_def enumerate_dict_def
      wait_amt_examples py_str_examples)

text \<open>
  C8. For a tokenizer built by \<open>__init__\<close> and a text whose space-separated tokens are
  all vocabulary entries, \<open>tokenize\<close> returns a list of ids, every id is a position of
  \<open>index2vocab\<close>, and reading the ids back through \<open>index2vocab\<close> gives the original
  token sequence, in order.
\<close>

theorem tokenize_roundtrip:
  assumes init: "NesT5Tokenizer_init str_iter int_iter contents = Inr tok"
    and vocab: "\<forall>w\<in>set (py_split CHR '' '' txt). w \<in> set (index2vocab tok)"
  shows "\<exists>ids. tokenize tok txt = Inr ids \<and>
           (\<forall>i\<in>set ids. i < length (index2vocab tok)) \<and>
           map (\<lambda>i. index2vocab tok ! i) ids = py_split CHR '' '' txt"
proof -
  let ?ws = "py_split CHR '' '' txt"
  have v2i: "vocab2index tok = enumerate_dict (index2vocab tok)"
    using init by (rule init_fields)
  have look: "\<exists>i. get_index tok w = Inr i \<and> i < length (index2vocab tok) \<and> index2vocab tok ! i = w"
    if "w \<in> set ?ws" for w
  proof -
    from that vocab have "w \<in> dom (enumerate_dict (index2vocab tok))"
      by (simp add: enumerate_dict_dom)
    then obtain i where i: "enumerate_dict (index2vocab tok) w = Some i"
      by auto
    from enumerate_dict_Some [OF this] i show ?thesis
      by (simp add: get_index_def v2i)
  qed
  then have "\<forall>w\<in>set ?ws. \<exists>i. get_index tok w = Inr i"
    by blast
  from map_result_all_ok [OF this] obtain ids
    where ids: "map_result (get_index tok) ?ws = Inr ids" "length ids = length ?ws"
      "\<forall>k<length ?ws. get_index tok (?ws ! k) = Inr (ids ! k)"
    by blast
  have nth: "ids ! k < length (index2vocab tok) \<and> index2vocab tok ! (ids ! k) = ?ws ! k"
    if "k < length ?ws" for k
    using look [of "?ws ! k"] ids(3) that by auto
  have "\<forall>i\<in>set ids. i < length (index2vocab tok)"
    using nth ids(2) by (auto simp: in_set_conv_nth)
  moreover have "map (\<lambda>i. index2vocab tok ! i) ids = ?ws"
    using nth ids(2) by (auto intro: nth_equalityI)
  ultimately show ?thesis
    using ids(1) by (simp add: tokenize_def)
qed

theorem tokenize_roundtrip_witness:
  "\<exists>ids. tokenize example_tokenizer ''a WT_10 b'' = Inr ids \<and>
         map (\<lambda>i. index2vocab example_tokenizer ! i) ids = [''a'', ''WT_10'', ''b'']"
  using tokenize_roundtrip [OF example_init', of "''a WT_10 b''"]
  by (auto simp: example_tokenizer_def)

text \<open>
  C9, as amended. Let the non-empty lines of the vocabulary file, stripped, contain more
  than 10 distinct tokens, and let every token that starts with \<^verbatim>\<open>WT\<close> have an integer
  as its second underscore-separated field. Then construction succeeds; \<open>index2vocab\<close>
  is \<^verbatim>\<open><pad>\<close>, \<^verbatim>\<open></s>\<close> (ids 0 and 1) followed by exactly the distinct tokens, once
  each; \<open>vocab2index\<close> is defined exactly on the entries of \<open>index2vocab\<close> and maps a
  token to a position that holds it. If the file lists neither reserved token, all
  entries are distinct and \<open>vocab2index\<close> maps every entry to its own position.
\<close>

theorem vocab_build:
  assumes iter: "set_iteration str_iter"
    and size: "10 < card (set (read_tokens contents))"
    and amts: "\<forall>w\<in>set (read_tokens contents).
                 take 2 w = ''WT'' \<longrightarrow> (\<exists>n. wait_amt_of w = Inr n)"
  shows "\<exists>tok ts.
           NesT5Tokenizer_init str_iter int_iter contents = Inr tok \<and>
           index2vocab tok = ''<pad>'' # ''</s>'' # ts \<and>
           distinct ts \<and> set ts = set (read_tokens contents) \<and>
           pad_token_id tok = 0 \<and> eos_token_id tok = 1 \<and>
           dom (vocab2index tok) = set (index2vocab tok) \<and>
           (\<forall>w i. vocab2index tok w = Some i \<longrightarrow>
                    i < length (index2vocab tok) \<and> index2vocab tok ! i = w) \<and>
           (''<pad>'' \<notin> set ts \<and> ''</s>'' \<notin> set ts \<longrightarrow>
              distinct (index2vocab tok) \<and>
              (\<forall>i<length (index2vocab tok). vocab2index tok (index2vocab tok ! i) = Some i))"
proof -
  let ?ts = "str_iter (read_tokens contents)"
  from iter have d: "distinct ?ts" and s: "set ?ts = set (read_tokens contents)"
    by (simp_all add: set_iteration_def)
  from d s have "length ?ts = card (set (read_tokens contents))"
    using distinct_card by fastforce
  with size have len: "10 < length ?ts"
    by simp
  from amts s have "\<forall>w\<in>set ?ts. take 2 w = ''WT'' \<longrightarrow> (\<exists>n. wait_amt_of w = Inr n)"
    by simp
  from init_ok [of str_iter contents int_iter, OF len this] obtain tok
    where tok: "NesT5Tokenizer_init str_iter int_iter contents = Inr tok" ..
  note f = init_fields [OF tok]
  have "dom (vocab2index tok) = set (index2vocab tok)"
    by (simp add: f(2) enumerate_dict_dom)
  moreover have "\<forall>w i. vocab2index tok w = Some i \<longrightarrow>
      i < length (index2vocab tok) \<and> index2vocab tok ! i = w"
    using enumerate_dict_Some by (simp add: f(2))
  moreover have "distinct (index2vocab tok) \<and>
      (\<forall>i<length (index2vocab tok). vocab2index tok (index2vocab tok ! i) = Some i)"
    if "''<pad>'' \<notin> set ?ts \<and> ''</s>'' \<notin> set ?ts"
  proof -
    from that d have "distinct (index2vocab tok)"
      by (simp add: f(1))
    then show ?thesis
      using enumerate_dict_distinct [of "index2vocab tok"] by (simp add: f(2))
  qed
  ultimately show ?thesis
    using tok f(1,3,4) d s by blast
qed

theorem vocab_build_witness:
  "10 < card (set (read_tokens example_vocab_file)) \<and>
   (\<exists>tok ts. NesT5Tokenizer_init remdups remdups example_vocab_file = Inr tok \<and>
      index2vocab tok = ''<pad>'' # ''</s>'' # ts \<and>
      set ts = {''WT_10'', ''WT_20'', ''a'', ''b'', ''c'', ''d'', ''e'', ''f'', ''g'', ''h'', ''i''} \<and>
      distinct (index2vocab tok) \<and>
      (\<forall>i<length (index2vocab tok). vocab2index tok (index2vocab tok ! i) = Some i))"
proof -
  have size: "10 < card (set (read_tokens example_vocab_file))"
    unfolding card_set read_example by simp
  have amts: "\<forall>w\<in>set (read_tokens example_vocab_file).
      take 2 w = ''WT'' \<longrightarrow> (\<exists>n. wait_amt_of w = Inr n)"
    by (simp add: read_example wait_amt_examples)
  from vocab_build [OF set_iteration_remdups size amts, of remdups]
  obtain tok ts where b: "NesT5Tokenizer_init remdups remdups example_vocab_file = Inr tok"
    "index2vocab tok = ''<pad>'' # ''</s>'' # ts"
    "set ts = set (read_tokens example_vocab_file)"
    "''<pad>'' \<notin> set ts \<and> ''</s>'' \<notin> set ts \<longrightarrow>
       distinct (index2vocab tok) \<and>
       (\<forall>i<length (index2vocab tok). vocab2index tok (index2vocab tok ! i) = Some i)"
    by blast
  from b(3) have ts: "set ts
      = {''WT_10'', ''WT_20'', ''a'', ''b'', ''c'', ''d'', ''e'', ''f'', ''g'', ''h'', ''i''}"
    by (auto simp: read_example)
  then have "''<pad>'' \<notin> set ts \<and> ''</s>'' \<notin> set ts"
    by simp
  with b(4) have "distinct (index2vocab tok) \<and>
      (\<forall>i<length (index2vocab tok). vocab2index tok (index2vocab tok ! i) = Some i)"
    by blast
  with size b(1,2) ts show ?thesis
    by blast
qed

text \<open>
  The claim as stated fails on a file that lists \<^verbatim>\<open><pad>\<close>: it has more than 10
  distinct tokens and construction succeeds, but whatever the iteration order of the
  set, \<^verbatim>\<open><pad>\<close> then stands at two positions and \<open>vocab2index\<close> cannot map every
  entry to its own position.
\<close>

theorem vocab_build_counterexample:
  "10 < card (set (read_tokens reserved_vocab_file)) \<and>
   (\<exists>tok. NesT5Tokenizer_init remdups remdups reserved_vocab_file = Inr tok) \<and>
   \<not> (\<exists>str_iter int_iter tok.
         set_iteration str_iter \<and>
         NesT5Tokenizer_init str_iter int_iter reserved_vocab_file = Inr tok \<and>
         (\<forall>i<length (index2vocab tok). vocab2index tok (index2vocab tok ! i) = Some i))"
proof (intro conjI notI)
  show "10 < card (set (read_tokens reserved_vocab_file))"
    unfolding card_set read_reserved by simp
  show "\<exists>tok. NesT5Tokenizer_init remdups remdups reserved_vocab_file = Inr tok"
    by (simp add: NesT5Tokenizer_init_def read_reserved Let_def)
next
  assume "\<exists>str_iter int_iter tok.
      set_iteration str_iter \<and>
      NesT5Tokenizer_init str_iter int_iter reserved_vocab_file = Inr tok \<and>
      (\<forall>i<length (index2vocab tok). vocab2index tok (index2vocab tok ! i) = Some i)"
  then obtain str_iter int_iter tok
    where iter: "set_iteration str_iter"
      and init: "NesT5Tokenizer_init str_iter int_iter reserved_vocab_file = Inr tok"
      and bij: "\<forall>i<length (index2vocab tok). vocab2index tok (index2vocab tok ! i) = Some i"
    by blast
  let ?ts = "str_iter (read_tokens reserved_vocab_file)"
  have i2v: "index2vocab tok = ''<pad>'' # ''</s>'' # ?ts"
    using init by (rule init_fields)
  from iter have "set ?ts = set (read_tokens reserved_vocab_file)"
    by (simp add: set_iteration_def)
  then have "''<pad>'' \<in> set ?ts"
    by (simp add: read_reserved)
  then obtain j where j: "j < length ?ts" "?ts ! j = ''<pad>''"
    by (auto simp: in_set_conv_nth)
  from bij i2v have "vocab2index tok ''<pad>'' = Some 0"
    by auto
  moreover from bij [rule_format, of "Suc (Suc j)"] i2v j
  have "vocab2index tok ''<pad>'' = Some (Suc (Suc j))"
    by simp
  ultimately show False
    by simp
qed

subsection \<open>Latent encoder and decoder\<close>

lemma Linear_forward_shape:
  "shape t \<noteq> [] \<Longrightarrow> last (shape t) = in_features l \<Longrightarrow>
     \<exists>t'. Linear_forward l t = Inr t' \<and> shape t' = butlast (shape t) @ [out_features l]"
  by (simp add: Linear_forward_def)

lemma view_2:
  "view t [int b, - 1] =
     (if 0 < b \<and> numel t mod b = 0 then Inr (t\<lparr>shape := [b, numel t div b]\<rparr>)
      else Inl RuntimeError)"
  by (simp add: view_def)

lemma view_3:
  "view t [int b, - 1, 100] =
     (if 0 < b \<and> numel t mod (b * 100) = 0
      then Inr (t\<lparr>shape := [b, numel t div (b * 100), 100]\<rparr>)
      else Inl RuntimeError)"
  by (simp add: view_def nat_mult_distrib)

lemma shape_tanh_tensor: "shape (tanh_tensor t) = shape t"
  by (simp add: tanh_tensor_def)

lemma encoder_forward_shape:
  assumes enc: "LatentEncoderLargeTanh_1kLatent_init dim_m s latent_size w1 b1 w2 b2 = Inr enc"
    and x: "shape x = [batch, s, dim_m]"
    and batch: "0 < batch"
  shows "\<exists>z. LatentEncoderLargeTanh_1kLatent_forward enc x = Inr z \<and>
             shape z = [batch, latent_size]"
proof -
  from enc have l1: "in_features (shrink_tokens enc) = dim_m" "out_features (shrink_tokens enc) = 100"
    and l2: "in_features (shrink_sequence enc) = 100 * s"
      "out_features (shrink_sequence enc) = latent_size"
    by (auto simp: LatentEncoderLargeTanh_1kLatent_init_def split: if_splits)
  from Linear_forward_shape [of x "shrink_tokens enc"] x l1 obtain e1
    where e1: "Linear_forward (shrink_tokens enc) x = Inr e1" "shape e1 = [batch, s, 100]"
    by auto
  from e1(2) batch have v: "view e1 [int batch, - 1] = Inr (e1\<lparr>shape := [batch, s * 100]\<rparr>)"
    by (simp add: view_2 numel_def)
  from Linear_forward_shape [of "e1\<lparr>shape := [batch, s * 100]\<rparr>" "shrink_sequence enc"] l2
  obtain e3 where e3: "Linear_forward (shrink_sequence enc) (e1\<lparr>shape := [batch, s * 100]\<rparr>) = Inr e3"
    "shape e3 = [batch, latent_size]"
    by auto
  from x e1(1) v e3 show ?thesis
    by (simp add: LatentEncoderLargeTanh_1kLatent_forward_def shape_tanh_tensor)
qed

lemma encoder_forward_empty_batch:
  assumes enc: "LatentEncoderLargeTanh_1kLatent_init dim_m s latent_size w1 b1 w2 b2 = Inr enc"
    and x: "shape x = [0, s, dim_m]"
  shows "LatentEncoderLargeTanh_1kLatent_forward enc x = Inl RuntimeError"
proof -
  from enc have l1: "in_features (shrink_tokens enc) = dim_m" "out_features (shrink_tokens enc) = 100"
    by (auto simp: LatentEncoderLargeTanh_1kLatent_init_def split: if_splits)
  from Linear_forward_shape [of x "shrink_tokens enc"] x l1 obtain e1
    where e1: "Linear_forward (shrink_tokens enc) x = Inr e1" "shape e1 = [0, s, 100]"
    by auto
  have "view e1 [0, - 1] = Inl RuntimeError"
    by (simp add: view_def)
  with x e1(1) show ?thesis
    by (simp add: LatentEncoderLargeTanh_1kLatent_forward_def)
qed

lemma encoder_forward_tanh:
  "LatentEncoderLargeTanh_1kLatent_forward enc x = Inr z \<Longrightarrow> \<exists>pre. z = tanh_tensor pre"
  by (auto simp: LatentEncoderLargeTanh_1kLatent_forward_def split: list.splits sum.splits)

lemma decoder_forward_shape:
  assumes z: "shape z = [batch, latent_size]"
    and batch: "0 < batch"
  shows "\<exists>pre. LatentDecoderLargeT5NormFF_forward
                 (LatentDecoderLargeT5NormFF_init dim_m s latent_size ff w1 b1 w2 b2 w3 b3) z
               = Inr (ff pre) \<and> shape pre = [batch, s, dim_m]"
proof -
  let ?dec = "LatentDecoderLargeT5NormFF_init dim_m s latent_size ff w1 b1 w2 b2 w3 b3"
  have f: "in_features (decode_latent ?dec) = latent_size"
    "out_features (decode_latent ?dec) = 10 * s"
    "in_features (grow_sequence ?dec) = 10 * s"
    "out_features (grow_sequence ?dec) = 100 * s"
    "in_features (grow_tokens ?dec) = 100"
    "out_features (grow_tokens ?dec) = dim_m"
    "norm_ff ?dec = ff"
    by (simp_all add: LatentDecoderLargeT5NormFF_init_def)
  from Linear_forward_shape [of z "decode_latent ?dec"] z f obtain l1
    where l1: "Linear_forward (decode_latent ?dec) z = Inr l1" "shape l1 = [batch, 10 * s]"
    by auto
  from Linear_forward_shape [of l1 "grow_sequence ?dec"] l1(2) f obtain l2
    where l2: "Linear_forward (grow_sequence ?dec) l1 = Inr l2" "shape l2 = [batch, 100 * s]"
    by auto
  have "(batch * (100 * s)) div (batch * 100) = s"
    using batch by simp
  with l2(2) batch
  have v: "view l2 [int batch, - 1, 100] = Inr (l2\<lparr>shape := [batch, s, 100]\<rparr>)"
    by (simp add: view_3 numel_def)
  from Linear_forward_shape [of "l2\<lparr>shape := [batch, s, 100]\<rparr>" "grow_tokens ?dec"] f
  obtain l4 where l4: "Linear_forward (grow_tokens ?dec) (l2\<lparr>shape := [batch, s, 100]\<rparr>) = Inr l4"
    "shape l4 = [batch, s, dim_m]"
    by auto
  from z l1(1) l2(1) v l4 f(7) show ?thesis
    by (auto simp: LatentDecoderLargeT5NormFF_forward_def)
qed

text \<open>
  C5. Let the encoder be built for hidden dimension \<open>dim_m\<close>, sequence length \<open>s\<close> and
  latent size \<open>latent_size\<close> (construction succeeds only for \<open>dim_m > 100\<close>), let the
  decoder be built for the same sizes with any weights and a shape-preserving
  \<^verbatim>\<open>T5LayerFF\<close>, and let the input have shape \<open>(batch, s, dim_m)\<close>. For a non-empty
  batch the encoder returns a latent vector, and for every latent vector the encoder
  returns the decoder returns a tensor whose shape is the shape of the encoder's input.
\<close>

theorem roundtrip_shape:
  assumes enc: "LatentEncoderLargeTanh_1kLatent_init dim_m s latent_size w1 b1 w2 b2 = Inr enc"
    and ff: "\<forall>t. shape (ff t) = shape t"
    and x: "shape x = [batch, s, dim_m]"
  shows "100 < dim_m \<and>
         (0 < batch \<longrightarrow> (\<exists>z. LatentEncoderLargeTanh_1kLatent_forward enc x = Inr z)) \<and>
         (\<forall>z. LatentEncoderLargeTanh_1kLatent_forward enc x = Inr z \<longrightarrow>
              (\<exists>y. LatentDecoderLargeT5NormFF_forward
                      (LatentDecoderLargeT5NormFF_init dim_m s latent_size ff v1 c1 v2 c2 v3 c3) z
                    = Inr y \<and> shape y = shape x))"
proof (intro conjI allI impI)
  from enc show "100 < dim_m"
    by (auto simp: LatentEncoderLargeTanh_1kLatent_init_def split: if_splits)
next
  assume "0 < batch"
  from encoder_forward_shape [OF enc x this]
  show "\<exists>z. LatentEncoderLargeTanh_1kLatent_forward enc x = Inr z"
    by blast
next
  fix z
  assume z: "LatentEncoderLargeTanh_1kLatent_forward enc x = Inr z"
  have batch: "0 < batch"
  proof (rule ccontr)
    assume "\<not> 0 < batch"
    with x have "shape x = [0, s, dim_m]"
      by simp
    from encoder_forward_empty_batch [OF enc this] z show False
      by simp
  qed
  from encoder_forward_shape [OF enc x batch] z have "shape z = [batch, latent_size]"
    by auto
  from decoder_forward_shape [OF this batch, of dim_m s ff v1 c1 v2 c2 v3 c3]
  obtain pre where "LatentDecoderLargeT5NormFF_forward
        (LatentDecoderLargeT5NormFF_init dim_m s latent_size ff v1 c1 v2 c2 v3 c3) z = Inr (ff pre)"
    "shape pre = [batch, s, dim_m]"
    by blast
  with ff x show "\<exists>y. LatentDecoderLargeT5NormFF_forward
        (LatentDecoderLargeT5NormFF_init dim_m s latent_size ff v1 c1 v2 c2 v3 c3) z = Inr y \<and>
        shape y = shape x"
    by simp
qed

lemma example_encoder_init:
  "LatentEncoderLargeTanh_1kLatent_init 101 2 4 (replicate 100 (replicate 101 0))
     (replicate 100 0) (replicate 4 (replicate 200 0)) (replicate 4 0) = Inr example_encoder"
  by (simp add: LatentEncoderLargeTanh_1kLatent_init_def example_encoder_def)

theorem roundtrip_shape_witness:
  "\<exists>z y. LatentEncoderLargeTanh_1kLatent_forward example_encoder example_input = Inr z \<and>
         LatentDecoderLargeT5NormFF_forward
           (LatentDecoderLargeT5NormFF_init 101 2 4 (\<lambda>t. t) [] [] [] [] [] []) z = Inr y \<and>
         shape y = [3, 2, 101]"
proof -
  have x: "shape example_input = [3, 2, 101]"
    by (simp add: example_input_def)
  have ff: "\<forall>t::tensor. shape ((\<lambda>t. t) t) = shape t"
    by simp
  from roundtrip_shape [OF example_encoder_init ff x, of "[]" "[]" "[]" "[]" "[]" "[]"] x
  show ?thesis
    by (metis zero_less_numeral)
qed

text \<open>
  Over the reals every entry of the encoder's output lies strictly between -1 and 1,
  since the output is a \<open>tanh\<close>. (In floating point \<open>tanh\<close> rounds to 1 or -1 for
  arguments of large magnitude, so this is a statement about the idealised model only.)
\<close>

lemma latent_bound_real:
  assumes "LatentEncoderLargeTanh_1kLatent_forward enc x = Inr z"
  shows "\<forall>v\<in>set (data z). - 1 < v \<and> v < 1"
proof -
  from encoder_forward_tanh [OF assms] obtain pre where "z = tanh_tensor pre" ..
  then show ?thesis
    by (auto simp: tanh_tensor_def tanh_real_gt_neg1 tanh_real_lt_1)
qed

subsection \<open>Autoencoder\<close>

text \<open>
  C2. For a batch \<open>x\<close> of \<open>n \<ge> 1\<close> latent vectors of dimension \<open>d \<ge> 1\<close>, the MMD of \<open>x\<close>
  against itself is computed without error and equals 0 (over the reals).
\<close>

theorem mmd_self_zero:
  assumes "shape x = [n, d]" and "0 < n" and "0 < d" and "length (data x) = n * d"
  shows "compute_mmd x x = Inr 0"
proof -
  from assms(1) obtain k where "compute_kernel x x = Inr k"
    by (simp add: compute_kernel_def numel_def)
  then show ?thesis
    by (simp add: compute_mmd_def)
qed

theorem mmd_self_zero_witness:
  "compute_mmd \<lparr> shape = [2, 1], data = [0, 1] \<rparr> \<lparr> shape = [2, 1], data = [0, 1] \<rparr> = Inr 0"
  using mmd_self_zero [of "\<lparr> shape = [2, 1], data = [0, 1] \<rparr>" 2 1]
  by simp

text \<open>
  C10. With \<open>just_get_latent\<close> the result is the latent vector of \<open>_model_forward\<close>, and
  with \<open>just_get_encoding\<close> (and not \<open>just_get_latent\<close>) it is the reconstructed encoding:
  in both modes the result is the same for any two states of the random generator, and
  the generator's state is returned unchanged (nothing is drawn). In the full mode the
  reconstruction loss and the reconstructed encoding are those fixed by the input; the
  regularisation loss is the MMD between the one sample drawn from the generator and
  the latent vector, and the generator is advanced by that one draw.
\<close>

theorem forward_deterministic:
  "(fst (FullSeqAE_forward ae randn g x True b) = fst (FullSeqAE_forward ae randn g' x True b) \<and>
    snd (FullSeqAE_forward ae randn g x True b) = g \<and>
    fst (FullSeqAE_forward ae randn g x True b)
      = map_sum id (\<lambda>(recon, latent). Latent latent) (model_forward ae x)) \<and>
   (fst (FullSeqAE_forward ae randn g x False True) = fst (FullSeqAE_forward ae randn g' x False True) \<and>
    snd (FullSeqAE_forward ae randn g x False True) = g \<and>
    fst (FullSeqAE_forward ae randn g x False True)
      = map_sum id (\<lambda>(recon, latent). Encoding recon) (model_forward ae x)) \<and>
   (model_forward ae x = Inr (recon, latent) \<longrightarrow> mse_loss x recon = Inr recon_loss \<longrightarrow>
    compute_mmd (fst (randn g (shape latent))) latent = Inr m \<longrightarrow>
      FullSeqAE_forward ae randn g x False False
        = (Inr (Losses recon_loss m recon), snd (randn g (shape latent))))"
  by (auto simp: FullSeqAE_forward_def regulariser_loss_def split: sum.splits prod.splits)

lemma compute_kernel_unit:
  "compute_kernel (unit_tensor a) (unit_tensor b) = Inr (unit_tensor (exp (- ((a - b) ^ 2))))"
  by (simp add: compute_kernel_def unit_tensor_def numel_def row_def)

lemma compute_mmd_unit:
  "compute_mmd (unit_tensor a) (unit_tensor b) = Inr (2 - 2 * exp (- ((a - b) ^ 2)))"
  by (simp add: compute_mmd_def compute_kernel_unit mean_all_def)
     (simp add: unit_tensor_def numel_def)

theorem forward_deterministic_witness:
  "fst (FullSeqAE_forward identity_ae constant_randn 0 (unit_tensor 0) True False)
     = fst (FullSeqAE_forward identity_ae constant_randn 1 (unit_tensor 0) True False) \<and>
   fst (FullSeqAE_forward identity_ae constant_randn 0 (unit_tensor 0) False True)
     = fst (FullSeqAE_forward identity_ae constant_randn 1 (unit_tensor 0) False True) \<and>
   FullSeqAE_forward identity_ae constant_randn 0 (unit_tensor 0) False False
     = (Inr (Losses 0 0 (unit_tensor 0)), 1) \<and>
   FullSeqAE_forward identity_ae constant_randn 1 (unit_tensor 0) False False
     = (Inr (Losses 0 (2 - 2 * exp (- 1)) (unit_tensor 0)), 2)"
proof -
  have mf: "model_forward identity_ae (unit_tensor 0) = Inr (unit_tensor 0, unit_tensor 0)"
    by (simp add: model_forward_def identity_ae_def)
  have mse: "mse_loss (unit_tensor 0) (unit_tensor 0) = Inr 0"
    by (simp add: mse_loss_def unit_tensor_def)
  have sample: "constant_randn g (shape (unit_tensor 0)) = (unit_tensor g, g + 1)" for g
    by (simp add: constant_randn_def unit_tensor_def)
  have mmd: "compute_mmd (fst (constant_randn g (shape (unit_tensor 0)))) (unit_tensor 0)
      = Inr (2 - 2 * exp (- (g ^ 2)))" for g
    by (simp add: sample compute_mmd_unit)
  from forward_deterministic [of identity_ae constant_randn 0 "unit_tensor 0" False 1
      "unit_tensor 0" "unit_tensor 0" 0 0] mf mse mmd [of 0]
  have a: "fst (FullSeqAE_forward identity_ae constant_randn 0 (unit_tensor 0) True False)
       = fst (FullSeqAE_forward identity_ae constant_randn 1 (unit_tensor 0) True False)"
    "fst (FullSeqAE_forward identity_ae constant_randn 0 (unit_tensor 0) False True)
       = fst (FullSeqAE_forward identity_ae constant_randn 1 (unit_tensor 0) False True)"
    "FullSeqAE_forward identity_ae constant_randn 0 (unit_tensor 0) False False
       = (Inr (Losses 0 0 (unit_tensor 0)), 1)"
    by (simp_all add: sample)
  from forward_deterministic [of identity_ae constant_randn 1 "unit_tensor 0" False 1
      "unit_tensor 0" "unit_tensor 0" 0 "2 - 2 * exp (- 1)"] mf mse mmd [of 1]
  have "FullSeqAE_forward identity_ae constant_randn 1 (unit_tensor 0) False False
       = (Inr (Losses 0 (2 - 2 * exp (- 1)) (unit_tensor 0)), 2)"
    by (simp add: sample)
  with a show ?thesis
    by blast
qed

subsection \<open>Training loop\<close>























lemma resume_short_dataloader:
  "checkpoint_step path = Some g \<Longrightarrow> len div gradient_accumulation_steps args = 0 \<Longrightarrow>
     resume args len (Some path) = Inl ZeroDivisionError"
  by (simp add: resume_def)






end
